theory Spec2Isabelle
  imports Main
begin

section \<open>The command router of the editor extension (utils/commands.ts)\<close>

text \<open>
  The handlers take \<^verbatim>\<open>...args: any[]\<close>: whatever the host passes. The values are
  modelled as plain JavaScript data (no accessor properties, no proxies): reading a
  property of such a value runs no user code. Numbers are never inspected by the
  router, so their payload is an integer here.
\<close>

subsection \<open>JavaScript values and the operators the router uses\<close>

datatype jsval =
    JUndefined
  | JNull
  | JBool bool
  | JNum int
  | JStr string
  | JArr "jsval list"
  | JObj "(string \<times> jsval) list"

datatype js_error = TypeError

fun nullish :: "jsval \<Rightarrow> bool" where
  "nullish JUndefined = True"
| "nullish JNull = True"
| "nullish _ = False"

fun is_string :: "jsval \<Rightarrow> bool" where
  "is_string (JStr _) = True"
| "is_string _ = False"

text \<open>
  The properties a value carries under a name that no built-in prototype defines (the
  router only reads \<^verbatim>\<open>path\<close>): an object carries what its property list says,
  primitives and arrays carry nothing.
\<close>

fun field_of :: "jsval \<Rightarrow> string \<Rightarrow> jsval option" where
  "field_of (JObj ps) name = map_of ps name"
| "field_of _ name = None"

text \<open>\<^verbatim>\<open>v.name\<close>: a TypeError on \<^verbatim>\<open>undefined\<close> and \<^verbatim>\<open>null\<close>, otherwise the
  property, or \<^verbatim>\<open>undefined\<close> when the value has none.\<close>

fun get_member :: "jsval \<Rightarrow> string \<Rightarrow> js_error + jsval" where
  "get_member JUndefined name = Inl TypeError"
| "get_member JNull name = Inl TypeError"
| "get_member v name = Inr (case field_of v name of None \<Rightarrow> JUndefined | Some x \<Rightarrow> x)"

text \<open>\<^verbatim>\<open>v?.name\<close>: short-circuits to \<^verbatim>\<open>undefined\<close> on a nullish \<^verbatim>\<open>v\<close>.\<close>

definition opt_member :: "jsval \<Rightarrow> string \<Rightarrow> js_error + jsval" where
  "opt_member v name = (if nullish v then Inr JUndefined else get_member v name)"

text \<open>\<^verbatim>\<open>Array.prototype.at\<close>: a negative index counts from the end, and an index out
  of range gives \<^verbatim>\<open>undefined\<close>.\<close>

definition array_at :: "jsval list \<Rightarrow> int \<Rightarrow> jsval" where
  "array_at xs i =
     (let n = int (length xs); k = (if i < 0 then n + i else i)
      in if k < 0 \<or> n \<le> k then JUndefined else xs ! nat k)"

subsection \<open>The ambient state: the active editor and the outbound messages\<close>

record text_document =
  fileName :: string

text \<open>The router reads \<^verbatim>\<open>activeTextEditor?.document?.fileName\<close>: both the editor and
  its document may be missing; a file name, when there is one, is a string.\<close>

record text_editor =
  document :: "text_document option"

datatype channel = BackendChannel | Notifier nat

record message =
  via :: channel
  target :: jsval
  intent :: string

record world =
  activeTextEditor :: "text_editor option"
  outbox :: "message list"

text \<open>A computation reads and updates the world, and returns a value or throws.\<close>

type_synonym 'a js = "world \<Rightarrow> js_error + ('a \<times> world)"

definition return_js :: "'a \<Rightarrow> 'a js" where
  "return_js v = (\<lambda>w. Inr (v, w))"

definition bind_js :: "'a js \<Rightarrow> ('a \<Rightarrow> 'b js) \<Rightarrow> 'b js" where
  "bind_js m f = (\<lambda>w. case m w of Inl e \<Rightarrow> Inl e | Inr (v, w') \<Rightarrow> f v w')"

definition lift_js :: "js_error + 'a \<Rightarrow> 'a js" where
  "lift_js r = (\<lambda>w. case r of Inl e \<Rightarrow> Inl e | Inr v \<Rightarrow> Inr (v, w))"

definition get_activeTextEditor :: "text_editor option js" where
  "get_activeTextEditor = (\<lambda>w. Inr (activeTextEditor w, w))"

text \<open>
  Modelled from the spec: the backend channel \<^verbatim>\<open>server\<close> (./server) is not part of the
  source. The spec gives \<^verbatim>\<open>sendStreamMessage(target: Path | null, intent: string) -> void\<close>,
  a fire-and-forget send; the model records the call in the outbox.
\<close>

definition sendStreamMessage :: "jsval \<Rightarrow> string \<Rightarrow> unit js" where
  "sendStreamMessage tgt label =
     (\<lambda>w. Inr ((), w\<lparr>outbox := outbox w @ [\<lparr>via = BackendChannel, target = tgt, intent = label\<rparr>]\<rparr>))"

text \<open>
  Modelled from the spec: the UI notifier \<^verbatim>\<open>WebviewProvider\<close> (lib/WebviewProvider) is
  not part of the source. The spec gives \<^verbatim>\<open>sendMessage(target: Path | null, intent: string) -> void\<close>;
  a provider is a reference (a number), and the model records the call, with the
  provider it was made on, in the outbox.
\<close>

definition sendMessage :: "nat \<Rightarrow> jsval \<Rightarrow> string \<Rightarrow> unit js" where
  "sendMessage webviewProvider tgt label =
     (\<lambda>w. Inr ((), w\<lparr>outbox := outbox w @ [\<lparr>via = Notifier webviewProvider, target = tgt, intent = label\<rparr>]\<rparr>))"

subsection \<open>The router\<close>

text \<open>\<^verbatim>\<open>vscode.window.activeTextEditor?.document?.fileName\<close>\<close>

definition activeFileName :: "jsval js" where
  "activeFileName =
     bind_js get_activeTextEditor (\<lambda>ed.
       return_js (case ed of
                    None \<Rightarrow> JUndefined
                  | Some e \<Rightarrow> (case document e of
                                None \<Rightarrow> JUndefined
                              | Some d \<Rightarrow> JStr (fileName d))))"

text \<open>\<^verbatim>\<open>args.at(0)?.path ?? vscode.window.activeTextEditor?.document?.fileName\<close>: the
  right operand of \<^verbatim>\<open>??\<close> is evaluated only when the left one is nullish.\<close>

definition getFilepath :: "jsval list \<Rightarrow> jsval js" where
  "getFilepath args =
     bind_js (lift_js (opt_member (array_at args 0) ''path'')) (\<lambda>p.
       if nullish p then activeFileName else return_js p)"

definition includeResource :: "jsval list \<Rightarrow> unit js" where
  "includeResource args =
     bind_js (getFilepath args) (\<lambda>filePath.
       if filePath = JUndefined then return_js ()
       else sendStreamMessage filePath ''include'')"

definition excludeResource :: "jsval list \<Rightarrow> unit js" where
  "excludeResource args =
     bind_js (getFilepath args) (\<lambda>filePath.
       if filePath = JUndefined then return_js ()
       else sendStreamMessage filePath ''exclude'')"

definition clearChat :: "jsval list \<Rightarrow> unit js" where
  "clearChat args = sendStreamMessage JNull ''clear_conversation''"

definition eraseChatHistory :: "nat \<Rightarrow> jsval list \<Rightarrow> unit js" where
  "eraseChatHistory webviewProvider =
     (\<lambda>args. sendMessage webviewProvider JNull ''vscode:eraseChatHistory'')"

subsection \<open>Observations used to state the properties\<close>

text \<open>The file name the active editor offers, read off the state directly.\<close>

fun editor_file :: "text_editor option \<Rightarrow> string option" where
  "editor_file None = None"
| "editor_file (Some e) = map_option fileName (document e)"

text \<open>An invocation has a usable first argument when the argument sequence is not empty
  and its first element carries a \<^verbatim>\<open>path\<close> field that is neither null nor undefined.\<close>

fun usable_first_argument :: "jsval list \<Rightarrow> bool" where
  "usable_first_argument [] = False"
| "usable_first_argument (a # rest) =
     (case field_of a ''path'' of None \<Rightarrow> False | Some v \<Rightarrow> \<not> nullish v)"

text \<open>The messages recorded on one channel, and the messages one run of a command adds.\<close>

definition sent_via :: "channel \<Rightarrow> world \<Rightarrow> message list" where
  "sent_via c w = filter (\<lambda>m. via m = c) (outbox w)"

definition emitted :: "unit js \<Rightarrow> world \<Rightarrow> js_error + message list" where
  "emitted cmd w =
     (case cmd w of
        Inl e \<Rightarrow> Inl e
      | Inr (u, w') \<Rightarrow> Inr (drop (length (outbox w)) (outbox w')))"

section \<open>Path resolution\<close>

lemma array_at_0_Nil: "array_at [] 0 = JUndefined"
  by (simp add: array_at_def)

lemma array_at_0_Cons: "array_at (a # rest) 0 = a"
  by (simp add: array_at_def Let_def)

text \<open>Without the optional chain the read of \<^verbatim>\<open>path\<close> on an empty argument
  sequence would throw; with it the read gives \<^verbatim>\<open>undefined\<close>.\<close>

lemma plain_member_of_missing_argument_throws:
  "lift_js (get_member (array_at [] 0) ''path'') w = Inl TypeError"
  by (simp add: lift_js_def array_at_0_Nil)

lemma opt_member_of_missing_argument:
  "lift_js (opt_member (array_at [] 0) ''path'') w = Inr (JUndefined, w)"
  by (simp add: lift_js_def array_at_0_Nil opt_member_def)

lemma opt_member_field:
  "field_of a name = Some v \<Longrightarrow> opt_member a name = Inr v"
  by (cases a) (simp_all add: opt_member_def)

lemma opt_member_no_field:
  "field_of a name = None \<Longrightarrow> opt_member a name = Inr JUndefined"
  by (cases a) (simp_all add: opt_member_def)

lemma activeFileName_eq:
  "activeFileName w =
     Inr (case editor_file (activeTextEditor w) of None \<Rightarrow> JUndefined | Some f \<Rightarrow> JStr f, w)"
proof (cases "activeTextEditor w")
  case None
  then show ?thesis
    by (simp add: activeFileName_def bind_js_def get_activeTextEditor_def return_js_def)
next
  case (Some e)
  then show ?thesis
    by (cases "document e")
       (simp_all add: activeFileName_def bind_js_def get_activeTextEditor_def return_js_def)
qed

lemma getFilepath_field:
  assumes "field_of a ''path'' = Some v"
  shows "getFilepath (a # rest) w =
           (if nullish v
            then Inr (case editor_file (activeTextEditor w) of None \<Rightarrow> JUndefined | Some f \<Rightarrow> JStr f, w)
            else Inr (v, w))"
  using assms
  by (simp add: getFilepath_def bind_js_def lift_js_def return_js_def array_at_0_Cons
      opt_member_field activeFileName_eq)

lemma getFilepath_no_field:
  assumes "field_of a ''path'' = None"
  shows "getFilepath (a # rest) w =
           Inr (case editor_file (activeTextEditor w) of None \<Rightarrow> JUndefined | Some f \<Rightarrow> JStr f, w)"
  using assms
  by (simp add: getFilepath_def bind_js_def lift_js_def array_at_0_Cons
      opt_member_no_field activeFileName_eq)

lemma getFilepath_Nil:
  "getFilepath [] w =
     Inr (case editor_file (activeTextEditor w) of None \<Rightarrow> JUndefined | Some f \<Rightarrow> JStr f, w)"
  by (simp add: getFilepath_def bind_js_def lift_js_def array_at_0_Nil opt_member_def
      activeFileName_eq)

text \<open>Every run of the resolver returns, leaves the world as it was, and gives a string,
  \<^verbatim>\<open>undefined\<close>, or the first argument's \<^verbatim>\<open>path\<close> field.\<close>

lemma getFilepath_result:
  "\<exists>v. getFilepath args w = Inr (v, w) \<and>
       (is_string v \<or> v = JUndefined \<or> (args \<noteq> [] \<and> field_of (hd args) ''path'' = Some v))"
proof (cases args)
  case Nil
  then show ?thesis
    by (simp add: getFilepath_Nil split: option.split)
next
  case (Cons a rest)
  show ?thesis
  proof (cases "field_of a ''path''")
    case None
    with Cons show ?thesis
      by (simp add: getFilepath_no_field split: option.split)
  next
    case (Some v)
    with Cons show ?thesis
      by (simp add: getFilepath_field split: option.split)
  qed
qed

lemma getFilepath_returns: "\<exists>v. getFilepath args w = Inr (v, w)"
  using getFilepath_result [of args w] by blast

lemma getFilepath_fallback:
  assumes "\<not> usable_first_argument args"
  shows "getFilepath args w =
           Inr (case editor_file (activeTextEditor w) of None \<Rightarrow> JUndefined | Some f \<Rightarrow> JStr f, w)"
proof (cases args)
  case Nil
  then show ?thesis by (simp add: getFilepath_Nil)
next
  case (Cons a rest)
  show ?thesis
  proof (cases "field_of a ''path''")
    case None
    with Cons show ?thesis by (simp add: getFilepath_no_field)
  next
    case (Some v)
    with Cons assms have "nullish v" by simp
    with Cons Some show ?thesis by (simp add: getFilepath_field)
  qed
qed

section \<open>The commands\<close>

lemma includeResource_eq:
  assumes "getFilepath args w = Inr (v, w)"
  shows "includeResource args w =
           Inr ((), if v = JUndefined then w
                    else w\<lparr>outbox := outbox w @ [\<lparr>via = BackendChannel, target = v, intent = ''include''\<rparr>]\<rparr>)"
  using assms by (simp add: includeResource_def bind_js_def return_js_def sendStreamMessage_def)

lemma excludeResource_eq:
  assumes "getFilepath args w = Inr (v, w)"
  shows "excludeResource args w =
           Inr ((), if v = JUndefined then w
                    else w\<lparr>outbox := outbox w @ [\<lparr>via = BackendChannel, target = v, intent = ''exclude''\<rparr>]\<rparr>)"
  using assms by (simp add: excludeResource_def bind_js_def return_js_def sendStreamMessage_def)

lemma emitted_append:
  "cmd w = Inr ((), w\<lparr>outbox := outbox w @ msgs\<rparr>) \<Longrightarrow> emitted cmd w = Inr msgs"
  by (simp add: emitted_def)

lemma getFilepath_same_editor:
  assumes "activeTextEditor w1 = activeTextEditor w2" and "getFilepath args w1 = Inr (v, w1)"
  shows "getFilepath args w2 = Inr (v, w2)"
proof (cases args)
  case Nil
  with assms show ?thesis by (simp add: getFilepath_Nil)
next
  case (Cons a rest)
  show ?thesis
  proof (cases "field_of a ''path''")
    case None
    with Cons assms show ?thesis by (simp add: getFilepath_no_field)
  next
    case (Some p)
    with Cons assms show ?thesis by (simp add: getFilepath_field split: if_splits)
  qed
qed

lemma emitted_includeResource:
  assumes "getFilepath args w = Inr (v, w)"
  shows "emitted (includeResource args) w =
           Inr (if v = JUndefined then []
                else [\<lparr>via = BackendChannel, target = v, intent = ''include''\<rparr>])"
  using includeResource_eq [OF assms] by (simp add: emitted_def)

lemma emitted_excludeResource:
  assumes "getFilepath args w = Inr (v, w)"
  shows "emitted (excludeResource args) w =
           Inr (if v = JUndefined then []
                else [\<lparr>via = BackendChannel, target = v, intent = ''exclude''\<rparr>])"
  using excludeResource_eq [OF assms] by (simp add: emitted_def)

section \<open>The properties of the specification\<close>

text \<open>
  C1 (as amended). When the first argument carries a \<^verbatim>\<open>path\<close> field whose value is
  neither null nor undefined, \<^verbatim>\<open>getFilepath\<close> returns exactly that value, whatever the
  other arguments, the active editor and its file name are, and leaves the world as it
  was.
\<close>

theorem getFilepath_explicit_path:
  assumes "field_of a ''path'' = Some v" and "\<not> nullish v"
  shows "getFilepath (a # rest) w = Inr (v, w)"
  using assms by (simp add: getFilepath_field)

theorem getFilepath_explicit_path_witness:
  "field_of (JObj [(''path'', JStr ''/a/b.py'')]) ''path'' = Some (JStr ''/a/b.py'')
   \<and> \<not> nullish (JStr ''/a/b.py'')
   \<and> getFilepath [JObj [(''path'', JStr ''/a/b.py'')]]
        \<lparr>activeTextEditor = Some \<lparr>document = Some \<lparr>fileName = ''/other.ts''\<rparr>\<rparr>, outbox = []\<rparr>
       = Inr (JStr ''/a/b.py'',
              \<lparr>activeTextEditor = Some \<lparr>document = Some \<lparr>fileName = ''/other.ts''\<rparr>\<rparr>, outbox = []\<rparr>)"
  using getFilepath_explicit_path
    [of "JObj [(''path'', JStr ''/a/b.py'')]" "JStr ''/a/b.py''" "[]"
        "\<lparr>activeTextEditor = Some \<lparr>document = Some \<lparr>fileName = ''/other.ts''\<rparr>\<rparr>, outbox = []\<rparr>"]
  by simp

text \<open>
  C1 as stated fails: the first argument \<^verbatim>\<open>{path: null}\<close> carries a \<^verbatim>\<open>path\<close> field,
  and with an editor open on \<^verbatim>\<open>/x.ts\<close> the resolver returns the editor's file name,
  not the field's value.
\<close>

theorem getFilepath_null_path_counterexample:
  "field_of (JObj [(''path'', JNull)]) ''path'' = Some JNull
   \<and> getFilepath [JObj [(''path'', JNull)]]
        \<lparr>activeTextEditor = Some \<lparr>document = Some \<lparr>fileName = ''/x.ts''\<rparr>\<rparr>, outbox = []\<rparr>
       = Inr (JStr ''/x.ts'',
              \<lparr>activeTextEditor = Some \<lparr>document = Some \<lparr>fileName = ''/x.ts''\<rparr>\<rparr>, outbox = []\<rparr>)
   \<and> getFilepath [JObj [(''path'', JNull)]]
        \<lparr>activeTextEditor = Some \<lparr>document = Some \<lparr>fileName = ''/x.ts''\<rparr>\<rparr>, outbox = []\<rparr>
       \<noteq> Inr (JNull,
              \<lparr>activeTextEditor = Some \<lparr>document = Some \<lparr>fileName = ''/x.ts''\<rparr>\<rparr>, outbox = []\<rparr>)"
  by (simp add: getFilepath_field)

text \<open>
  C2. For every argument sequence and world, path resolution returns some value \<open>v\<close>
  without changing the world, and \<^verbatim>\<open>includeResource\<close> returns normally. If \<open>v\<close> is
  \<^verbatim>\<open>undefined\<close> the world is left exactly as it was (no message, no other effect);
  otherwise the only change is one message appended to the outbox, on the backend
  channel, with target \<open>v\<close> and intent \<^verbatim>\<open>include\<close>.
\<close>

theorem includeResource_sends_iff_resolved:
  "\<exists>v. getFilepath args w = Inr (v, w) \<and>
       includeResource args w =
         Inr ((), if v = JUndefined then w
                  else w\<lparr>outbox := outbox w @ [\<lparr>via = BackendChannel, target = v, intent = ''include''\<rparr>]\<rparr>) \<and>
       emitted (includeResource args) w =
         Inr (if v = JUndefined then []
              else [\<lparr>via = BackendChannel, target = v, intent = ''include''\<rparr>])"
proof -
  obtain v where v: "getFilepath args w = Inr (v, w)"
    using getFilepath_returns by blast
  have run: "includeResource args w =
         Inr ((), if v = JUndefined then w
                  else w\<lparr>outbox := outbox w @ [\<lparr>via = BackendChannel, target = v, intent = ''include''\<rparr>]\<rparr>)"
    using v by (rule includeResource_eq)
  have "emitted (includeResource args) w =
         Inr (if v = JUndefined then []
              else [\<lparr>via = BackendChannel, target = v, intent = ''include''\<rparr>])"
    using run by (simp add: emitted_def)
  with v run show ?thesis by blast
qed

text \<open>
  C3. For every argument sequence, \<^verbatim>\<open>clearChat\<close> returns normally and its only effect
  is one message appended to the outbox: on the backend channel, with a null target
  and intent \<^verbatim>\<open>clear_conversation\<close>. The arguments do not occur in the result.
\<close>

theorem clearChat_sends_clear_conversation:
  "clearChat args w =
     Inr ((), w\<lparr>outbox := outbox w @
                 [\<lparr>via = BackendChannel, target = JNull, intent = ''clear_conversation''\<rparr>]\<rparr>) \<and>
   emitted (clearChat args) w =
     Inr [\<lparr>via = BackendChannel, target = JNull, intent = ''clear_conversation''\<rparr>]"
  by (simp add: clearChat_def sendStreamMessage_def emitted_def)

text \<open>
  C4. \<^verbatim>\<open>eraseChatHistory\<close> applied to a notifier is a callback. Invoked with any
  argument sequence, the callback returns normally and its only effect is one message
  through that notifier's \<^verbatim>\<open>sendMessage\<close>, with a null target and the erase-chat-history
  intent, which the call spells as the single token \<^verbatim>\<open>vscode:eraseChatHistory\<close>. The
  messages sent on the backend channel are the same before and after.
\<close>

theorem eraseChatHistory_callback_notifies:
  "\<exists>w'. eraseChatHistory webviewProvider args w = Inr ((), w') \<and>
        w' = w\<lparr>outbox := outbox w @
                [\<lparr>via = Notifier webviewProvider, target = JNull,
                  intent = ''vscode:eraseChatHistory''\<rparr>]\<rparr> \<and>
        emitted (eraseChatHistory webviewProvider args) w =
          Inr [\<lparr>via = Notifier webviewProvider, target = JNull,
                intent = ''vscode:eraseChatHistory''\<rparr>] \<and>
        sent_via BackendChannel w' = sent_via BackendChannel w"
  by (simp add: eraseChatHistory_def sendMessage_def emitted_def sent_via_def)

text \<open>
  C5. When the invocation has no usable first argument (the argument sequence is
  empty, or its first element carries no \<^verbatim>\<open>path\<close> field, or carries one that is null
  or undefined), \<^verbatim>\<open>getFilepath\<close> returns the file name of the active editor's document
  when there is an active editor with a document, and \<^verbatim>\<open>undefined\<close> otherwise.
\<close>

theorem getFilepath_falls_back_to_editor:
  assumes "\<not> usable_first_argument args"
  shows "getFilepath args w =
           Inr (case editor_file (activeTextEditor w) of
                  None \<Rightarrow> JUndefined
                | Some f \<Rightarrow> JStr f, w)"
  using assms by (rule getFilepath_fallback)

theorem getFilepath_falls_back_to_editor_witness:
  "\<not> usable_first_argument []
   \<and> getFilepath [] \<lparr>activeTextEditor = None, outbox = []\<rparr>
       = Inr (JUndefined, \<lparr>activeTextEditor = None, outbox = []\<rparr>)
   \<and> \<not> usable_first_argument [JNum 7, JStr ''x'']
   \<and> getFilepath [JNum 7, JStr ''x'']
        \<lparr>activeTextEditor = Some \<lparr>document = Some \<lparr>fileName = ''/src/main.py''\<rparr>\<rparr>, outbox = []\<rparr>
       = Inr (JStr ''/src/main.py'',
              \<lparr>activeTextEditor = Some \<lparr>document = Some \<lparr>fileName = ''/src/main.py''\<rparr>\<rparr>, outbox = []\<rparr>)
   \<and> getFilepath [JObj [(''scheme'', JStr ''file'')]]
        \<lparr>activeTextEditor = Some \<lparr>document = None\<rparr>, outbox = []\<rparr>
       = Inr (JUndefined, \<lparr>activeTextEditor = Some \<lparr>document = None\<rparr>, outbox = []\<rparr>)"
  using getFilepath_falls_back_to_editor [of "[]" "\<lparr>activeTextEditor = None, outbox = []\<rparr>"]
    getFilepath_falls_back_to_editor
      [of "[JNum 7, JStr ''x'']"
          "\<lparr>activeTextEditor = Some \<lparr>document = Some \<lparr>fileName = ''/src/main.py''\<rparr>\<rparr>, outbox = []\<rparr>"]
    getFilepath_falls_back_to_editor
      [of "[JObj [(''scheme'', JStr ''file'')]]"
          "\<lparr>activeTextEditor = Some \<lparr>document = None\<rparr>, outbox = []\<rparr>"]
  by simp

text \<open>
  C6. For every argument sequence and world, \<^verbatim>\<open>includeResource\<close> and
  \<^verbatim>\<open>excludeResource\<close> both return normally, and there is one list of messages such
  that \<^verbatim>\<open>includeResource\<close> appends exactly that list to the outbox, all with intent
  \<^verbatim>\<open>include\<close>, and \<^verbatim>\<open>excludeResource\<close> appends exactly the same list (same number of
  messages, same channel, same target) with the intent replaced by \<^verbatim>\<open>exclude\<close>.
\<close>

theorem excludeResource_mirrors_includeResource:
  "\<exists>msgs. includeResource args w = Inr ((), w\<lparr>outbox := outbox w @ msgs\<rparr>) \<and>
          excludeResource args w =
            Inr ((), w\<lparr>outbox := outbox w @ map (\<lambda>m. m\<lparr>intent := ''exclude''\<rparr>) msgs\<rparr>) \<and>
          map intent msgs = replicate (length msgs) ''include'' \<and>
          emitted (includeResource args) w = Inr msgs \<and>
          emitted (excludeResource args) w = Inr (map (\<lambda>m. m\<lparr>intent := ''exclude''\<rparr>) msgs)"
proof -
  obtain v where v: "getFilepath args w = Inr (v, w)"
    using getFilepath_returns by blast
  define msgs where
    "msgs = (if v = JUndefined then []
             else [\<lparr>via = BackendChannel, target = v, intent = ''include''\<rparr>])"
  have inc: "includeResource args w = Inr ((), w\<lparr>outbox := outbox w @ msgs\<rparr>)"
    using includeResource_eq [OF v] by (simp add: msgs_def)
  have exc: "excludeResource args w =
               Inr ((), w\<lparr>outbox := outbox w @ map (\<lambda>m. m\<lparr>intent := ''exclude''\<rparr>) msgs\<rparr>)"
    using excludeResource_eq [OF v] by (simp add: msgs_def)
  have lab: "map intent msgs = replicate (length msgs) ''include''"
    by (simp add: msgs_def)
  from inc have "emitted (includeResource args) w = Inr msgs"
    by (rule emitted_append)
  moreover from exc
  have "emitted (excludeResource args) w = Inr (map (\<lambda>m. m\<lparr>intent := ''exclude''\<rparr>) msgs)"
    by (rule emitted_append)
  ultimately show ?thesis
    using inc exc lab by blast
qed

text \<open>
  C7 (as amended). On plain-data arguments \<^verbatim>\<open>getFilepath\<close> is total and
  effect-free: for every argument sequence whose elements are plain JavaScript data
  (the values of type \<open>jsval\<close>: undefined, null, booleans, numbers, strings, arrays
  and objects whose properties are data properties) and every world, it returns a value
  without raising an error and leaves the world (the editor state and the outbox)
  exactly as it was. The value is a string, or \<^verbatim>\<open>undefined\<close>, or the value of the
  first argument's \<^verbatim>\<open>path\<close> field. Arguments whose \<^verbatim>\<open>path\<close> is an accessor
  property or that are proxies are outside this statement: reading \<^verbatim>\<open>path\<close> on them
  runs code of the caller, which may throw or have effects.
\<close>

theorem getFilepath_total_effect_free:
  "\<exists>v. getFilepath args w = Inr (v, w) \<and>
       (is_string v \<or> v = JUndefined \<or> (args \<noteq> [] \<and> field_of (hd args) ''path'' = Some v))"
  by (rule getFilepath_result)

text \<open>
  C7 as stated fails: the first argument \<^verbatim>\<open>{path: 42}\<close> makes the resolver return the
  number 42, which is neither a string nor \<^verbatim>\<open>undefined\<close>.
\<close>

theorem getFilepath_number_path_counterexample:
  "getFilepath [JObj [(''path'', JNum 42)]] \<lparr>activeTextEditor = None, outbox = []\<rparr>
     = Inr (JNum 42, \<lparr>activeTextEditor = None, outbox = []\<rparr>)
   \<and> \<not> is_string (JNum 42) \<and> JNum 42 \<noteq> JUndefined"
  by (simp add: getFilepath_field)

text \<open>
  C8. When the first argument carries a \<^verbatim>\<open>path\<close> field whose value is null,
  \<^verbatim>\<open>getFilepath\<close> does not return null: it returns the file name of the active editor's
  document when there is one, and \<^verbatim>\<open>undefined\<close> otherwise.
\<close>

theorem getFilepath_null_path_falls_back:
  assumes "field_of a ''path'' = Some JNull"
  shows "getFilepath (a # rest) w =
           Inr (case editor_file (activeTextEditor w) of
                  None \<Rightarrow> JUndefined
                | Some f \<Rightarrow> JStr f, w)
         \<and> getFilepath (a # rest) w \<noteq> Inr (JNull, w)"
  using assms by (simp add: getFilepath_field split: option.split)

theorem getFilepath_null_path_falls_back_witness:
  "field_of (JObj [(''path'', JNull)]) ''path'' = Some JNull
   \<and> getFilepath [JObj [(''path'', JNull)]]
        \<lparr>activeTextEditor = Some \<lparr>document = Some \<lparr>fileName = ''/lib/a.ts''\<rparr>\<rparr>, outbox = []\<rparr>
       = Inr (JStr ''/lib/a.ts'',
              \<lparr>activeTextEditor = Some \<lparr>document = Some \<lparr>fileName = ''/lib/a.ts''\<rparr>\<rparr>, outbox = []\<rparr>)
   \<and> getFilepath [JObj [(''path'', JNull)]] \<lparr>activeTextEditor = None, outbox = []\<rparr>
       = Inr (JUndefined, \<lparr>activeTextEditor = None, outbox = []\<rparr>)"
  using getFilepath_null_path_falls_back
      [of "JObj [(''path'', JNull)]" "[]"
          "\<lparr>activeTextEditor = Some \<lparr>document = Some \<lparr>fileName = ''/lib/a.ts''\<rparr>\<rparr>, outbox = []\<rparr>"]
    getFilepath_null_path_falls_back
      [of "JObj [(''path'', JNull)]" "[]" "\<lparr>activeTextEditor = None, outbox = []\<rparr>"]
  by simp

text \<open>
  C9. When the first argument carries a \<^verbatim>\<open>path\<close> field whose value is the empty
  string, \<^verbatim>\<open>getFilepath\<close> returns the empty string in every world (the active editor
  has no influence), and \<^verbatim>\<open>includeResource\<close> then sends one message on the backend
  channel with the empty string as target and intent \<^verbatim>\<open>include\<close>.
\<close>

theorem empty_path_is_resolved_and_included:
  assumes "field_of a ''path'' = Some (JStr [])"
  shows "getFilepath (a # rest) w = Inr (JStr [], w) \<and>
         includeResource (a # rest) w =
           Inr ((), w\<lparr>outbox := outbox w @
                       [\<lparr>via = BackendChannel, target = JStr [], intent = ''include''\<rparr>]\<rparr>) \<and>
         emitted (includeResource (a # rest)) w =
           Inr [\<lparr>via = BackendChannel, target = JStr [], intent = ''include''\<rparr>]"
proof -
  have res: "getFilepath (a # rest) w = Inr (JStr [], w)"
    using assms by (simp add: getFilepath_field)
  have run: "includeResource (a # rest) w =
           Inr ((), w\<lparr>outbox := outbox w @
                       [\<lparr>via = BackendChannel, target = JStr [], intent = ''include''\<rparr>]\<rparr>)"
    using includeResource_eq [OF res] by simp
  from run have "emitted (includeResource (a # rest)) w =
           Inr [\<lparr>via = BackendChannel, target = JStr [], intent = ''include''\<rparr>]"
    by (rule emitted_append)
  with res run show ?thesis by blast
qed

theorem empty_path_is_resolved_and_included_witness:
  "field_of (JObj [(''path'', JStr [])]) ''path'' = Some (JStr [])
   \<and> getFilepath [JObj [(''path'', JStr [])]]
        \<lparr>activeTextEditor = Some \<lparr>document = Some \<lparr>fileName = ''/open.ts''\<rparr>\<rparr>, outbox = []\<rparr>
       = Inr (JStr [],
              \<lparr>activeTextEditor = Some \<lparr>document = Some \<lparr>fileName = ''/open.ts''\<rparr>\<rparr>, outbox = []\<rparr>)
   \<and> includeResource [JObj [(''path'', JStr [])]]
        \<lparr>activeTextEditor = Some \<lparr>document = Some \<lparr>fileName = ''/open.ts''\<rparr>\<rparr>, outbox = []\<rparr>
       = Inr ((), \<lparr>activeTextEditor = Some \<lparr>document = Some \<lparr>fileName = ''/open.ts''\<rparr>\<rparr>,
                  outbox = [\<lparr>via = BackendChannel, target = JStr [], intent = ''include''\<rparr>]\<rparr>)"
  using empty_path_is_resolved_and_included
      [of "JObj [(''path'', JStr [])]" "[]"
          "\<lparr>activeTextEditor = Some \<lparr>document = Some \<lparr>fileName = ''/open.ts''\<rparr>\<rparr>, outbox = []\<rparr>"]
  by simp

text \<open>
  C10. Every router operation is deterministic: two runs of \<^verbatim>\<open>includeResource\<close>,
  \<^verbatim>\<open>excludeResource\<close>, \<^verbatim>\<open>clearChat\<close> or an \<^verbatim>\<open>eraseChatHistory\<close> callback (on the same
  notifier) with the same arguments, in worlds with the same active-editor state, have
  the same outcome and emit the same sequence of messages (channel, target and intent),
  whatever was sent before in either world.
\<close>

theorem router_operations_deterministic:
  assumes "activeTextEditor w1 = activeTextEditor w2"
  shows "emitted (includeResource args) w1 = emitted (includeResource args) w2 \<and>
         emitted (excludeResource args) w1 = emitted (excludeResource args) w2 \<and>
         emitted (clearChat args) w1 = emitted (clearChat args) w2 \<and>
         emitted (eraseChatHistory webviewProvider args) w1 =
           emitted (eraseChatHistory webviewProvider args) w2"
proof -
  obtain v where v1: "getFilepath args w1 = Inr (v, w1)"
    using getFilepath_returns by blast
  from assms v1 have v2: "getFilepath args w2 = Inr (v, w2)"
    by (rule getFilepath_same_editor)
  have "emitted (includeResource args) w1 = emitted (includeResource args) w2"
    by (simp add: emitted_includeResource [OF v1] emitted_includeResource [OF v2])
  moreover have "emitted (excludeResource args) w1 = emitted (excludeResource args) w2"
    by (simp add: emitted_excludeResource [OF v1] emitted_excludeResource [OF v2])
  moreover have "emitted (clearChat args) w1 = emitted (clearChat args) w2"
    by (simp add: clearChat_def sendStreamMessage_def emitted_def)
  moreover have "emitted (eraseChatHistory webviewProvider args) w1 =
                 emitted (eraseChatHistory webviewProvider args) w2"
    by (simp add: eraseChatHistory_def sendMessage_def emitted_def)
  ultimately show ?thesis by blast
qed

theorem router_operations_deterministic_witness:
  "activeTextEditor \<lparr>activeTextEditor = Some \<lparr>document = Some \<lparr>fileName = ''/m.py''\<rparr>\<rparr>, outbox = []\<rparr>
     = activeTextEditor
         \<lparr>activeTextEditor = Some \<lparr>document = Some \<lparr>fileName = ''/m.py''\<rparr>\<rparr>,
          outbox = [\<lparr>via = BackendChannel, target = JNull, intent = ''clear_conversation''\<rparr>]\<rparr>
   \<and> emitted (includeResource [])
        \<lparr>activeTextEditor = Some \<lparr>document = Some \<lparr>fileName = ''/m.py''\<rparr>\<rparr>, outbox = []\<rparr>
       = Inr [\<lparr>via = BackendChannel, target = JStr ''/m.py'', intent = ''include''\<rparr>]
   \<and> emitted (includeResource [])
        \<lparr>activeTextEditor = Some \<lparr>document = Some \<lparr>fileName = ''/m.py''\<rparr>\<rparr>,
         outbox = [\<lparr>via = BackendChannel, target = JNull, intent = ''clear_conversation''\<rparr>]\<rparr>
       = Inr [\<lparr>via = BackendChannel, target = JStr ''/m.py'', intent = ''include''\<rparr>]
   \<and> emitted (eraseChatHistory 0 [])
        \<lparr>activeTextEditor = Some \<lparr>document = Some \<lparr>fileName = ''/m.py''\<rparr>\<rparr>,
         outbox = [\<lparr>via = BackendChannel, target = JNull, intent = ''clear_conversation''\<rparr>]\<rparr>
       = emitted (eraseChatHistory 0 [])
           \<lparr>activeTextEditor = Some \<lparr>document = Some \<lparr>fileName = ''/m.py''\<rparr>\<rparr>, outbox = []\<rparr>"
proof -
  have run: "emitted (includeResource [])
        \<lparr>activeTextEditor = Some \<lparr>document = Some \<lparr>fileName = ''/m.py''\<rparr>\<rparr>, outbox = []\<rparr>
       = Inr [\<lparr>via = BackendChannel, target = JStr ''/m.py'', intent = ''include''\<rparr>]"
    by (simp add: emitted_includeResource [OF getFilepath_Nil])
  show ?thesis
    using run router_operations_deterministic
      [of "\<lparr>activeTextEditor = Some \<lparr>document = Some \<lparr>fileName = ''/m.py''\<rparr>\<rparr>, outbox = []\<rparr>"
          "\<lparr>activeTextEditor = Some \<lparr>document = Some \<lparr>fileName = ''/m.py''\<rparr>\<rparr>,
            outbox = [\<lparr>via = BackendChannel, target = JNull, intent = ''clear_conversation''\<rparr>]\<rparr>"
          "[]" 0]
    by simp
qed

end
